theory Spec2Isabelle
  imports Complex_Main "HOL-Library.Finite_Map"
begin

section \<open>The ChronoEngine backtest core (engine.cpp, account.h)\<close>

text \<open>
  The engine owns one \<open>Account\<close> and, in \<open>run\<close>, walks a prices and a signals matrix
  day by day: unlock (T+1), one pass over the instruments in ascending index order, and a
  valuation of the account that is appended to the equity series.

  Numbers. A cell of an input matrix is a C++ \<open>double\<close> that the code itself tests with
  \<open>std::isfinite\<close> and compares with \<open>0.0\<close>, so a cell is a value of the type \<open>double\<close>
  below: a finite value, one of the infinities, or NaN, with the comparisons of IEEE 754
  (every comparison with NaN is false). The Account's fields and the arithmetic on them
  are modelled over the reals, as the data model of the specification has them
  ("cash (real number ...)"): rounding, overflow and non-finite account fields of binary64
  are outside the model. Every matrix cell that enters the arithmetic has passed a guard
  that makes it finite (lemmas \<open>valid_price_finite\<close>, \<open>buy_fraction_finite\<close>,
  \<open>sell_fraction_finite\<close>), so \<open>to_real\<close> is only ever applied to finite cells.

  Indices. \<open>py::ssize_t\<close> day and column indices are natural numbers; the keys of
  \<open>std::unordered_map<int, Position>\<close> are integers, and \<open>static_cast<int>(stock)\<close> is
  the embedding \<open>int\<close> of a column index (column counts stay below \<open>2^31\<close>).
\<close>

subsection \<open>Matrix cells\<close>

datatype double = Fin real | PInf | NInf | NaN

fun isfinite :: "double \<Rightarrow> bool" where
  "isfinite (Fin x) = True"
| "isfinite PInf = False"
| "isfinite NInf = False"
| "isfinite NaN = False"

text \<open>\<open>dless a b\<close> is the C++ \<open>a < b\<close>, \<open>dle a b\<close> is \<open>a <= b\<close>.\<close>

fun dless :: "double \<Rightarrow> double \<Rightarrow> bool" where
  "dless (Fin x) (Fin y) = (x < y)"
| "dless (Fin x) PInf = True"
| "dless NInf (Fin y) = True"
| "dless NInf PInf = True"
| "dless a b = False"

fun dle :: "double \<Rightarrow> double \<Rightarrow> bool" where
  "dle (Fin x) (Fin y) = (x \<le> y)"
| "dle (Fin x) PInf = True"
| "dle NInf (Fin y) = True"
| "dle NInf PInf = True"
| "dle NInf NInf = True"
| "dle PInf PInf = True"
| "dle a b = False"

fun duminus :: "double \<Rightarrow> double" where
  "duminus (Fin x) = Fin (- x)"
| "duminus PInf = NInf"
| "duminus NInf = PInf"
| "duminus NaN = NaN"

text \<open>\<open>std::min(a, b)\<close> is \<open>(b < a) ? b : a\<close>.\<close>

definition std_min :: "double \<Rightarrow> double \<Rightarrow> double" where
  "std_min a b = (if dless b a then b else a)"

fun to_real :: "double \<Rightarrow> real" where
  "to_real (Fin x) = x"
| "to_real PInf = 0"
| "to_real NInf = 0"
| "to_real NaN = 0"

subsection \<open>account.h\<close>

record Position =
  total_shares :: real
  sellable_shares :: real
  avg_cost :: real

record Account =
  cash :: real
  positions :: "(int, Position) fmap"

text \<open>The member initialisers of \<open>Position\<close>: all fields \<open>0.0\<close>.\<close>

definition Position0 :: Position where
  "Position0 = \<lparr>total_shares = 0, sellable_shares = 0, avg_cost = 0\<rparr>"

subsection \<open>The input arrays\<close>

text \<open>
  A \<open>py::array_t<double>\<close> as the engine sees it: its shape (\<open>ndim\<close> is its length)
  and, for a two-dimensional array, the unchecked accessor \<open>p(t, stock)\<close>.
\<close>

record ndarray =
  shape :: "nat list"
  cell :: "nat \<Rightarrow> nat \<Rightarrow> double"

definition ndim :: "ndarray \<Rightarrow> nat" where
  "ndim arr = length (shape arr)"

datatype error = RuntimeError string | OutOfBoundsRead

subsection \<open>engine.cpp\<close>

definition ChronoEngine :: "real \<Rightarrow> Account" where
  "ChronoEngine initial_cash = \<lparr>cash = initial_cash, positions = fmempty\<rparr>"

definition commission :: real where
  "commission = 0.0003"

definition slippage :: real where
  "slippage = 0.0003"

text \<open>Lines 35 to 38: the pre-market unlock.\<close>

definition unlock :: "Account \<Rightarrow> Account" where
  "unlock a =
     a\<lparr>positions := fmmap (\<lambda>pos. pos\<lparr>sellable_shares := total_shares pos\<rparr>) (positions a)\<rparr>"

text \<open>
  \<open>account_.positions[k]\<close>: the Position stored under \<open>k\<close>, a zero Position when there
  is none (which \<open>operator[]\<close> then inserts; \<open>buy\<close> stores the updated Position).
\<close>

definition position_at :: "Account \<Rightarrow> int \<Rightarrow> Position" where
  "position_at a k = (case fmlookup (positions a) k of None \<Rightarrow> Position0 | Some pos \<Rightarrow> pos)"

text \<open>Lines 52 to 59: the quantities of the buy branch.\<close>

definition intent_cash :: "double \<Rightarrow> Account \<Rightarrow> real" where
  "intent_cash sig a = cash a * to_real (std_min sig (Fin 1))"

definition target_shares :: "real \<Rightarrow> double \<Rightarrow> Account \<Rightarrow> real" where
  "target_shares price sig a = intent_cash sig a / price"

definition buy_notional :: "real \<Rightarrow> double \<Rightarrow> Account \<Rightarrow> real" where
  "buy_notional price sig a = target_shares price sig a * price"

definition buy_cost :: "real \<Rightarrow> double \<Rightarrow> Account \<Rightarrow> real" where
  "buy_cost price sig a = buy_notional price sig a * (1 + commission + slippage)"

text \<open>Lines 50 to 71: the buy branch for the instrument \<open>stock\<close>.\<close>

definition buy :: "real \<Rightarrow> double \<Rightarrow> int \<Rightarrow> Account \<Rightarrow> Account" where
  "buy price sig stock a =
     (if target_shares price sig a \<le> 0 then a
      else if buy_cost price sig a > cash a then a
      else
        let pos = position_at a stock;
            new_total_shares = total_shares pos + target_shares price sig a;
            new_cost = avg_cost pos * total_shares pos + buy_notional price sig a;
            pos' = \<lparr>total_shares = new_total_shares,
                    sellable_shares = sellable_shares pos + target_shares price sig a * 0,
                    avg_cost = (if new_total_shares > 0 then new_cost / new_total_shares else 0)\<rparr>
        in \<lparr>cash = cash a - buy_cost price sig a,
            positions = fmupd stock pos' (positions a)\<rparr>)"

text \<open>Lines 80 to 86: the quantities of the sell branch.\<close>

definition sell_shares :: "double \<Rightarrow> Position \<Rightarrow> real" where
  "sell_shares sig pos =
     min (sellable_shares pos) (total_shares pos * to_real (std_min (duminus sig) (Fin 1)))"

definition proceeds :: "real \<Rightarrow> double \<Rightarrow> Position \<Rightarrow> real" where
  "proceeds price sig pos = sell_shares sig pos * price * (1 - commission - slippage)"

text \<open>Lines 72 to 96: the sell branch for the instrument \<open>stock\<close>.\<close>

definition sell :: "real \<Rightarrow> double \<Rightarrow> int \<Rightarrow> Account \<Rightarrow> Account" where
  "sell price sig stock a =
     (case fmlookup (positions a) stock of
        None \<Rightarrow> a
      | Some pos \<Rightarrow>
          if sell_shares sig pos \<le> 0 then a
          else
            let pos1 = pos\<lparr>total_shares := total_shares pos - sell_shares sig pos,
                           sellable_shares := sellable_shares pos - sell_shares sig pos\<rparr>;
                pos2 = (if total_shares pos1 \<le> 0 then Position0 else pos1)
            in \<lparr>cash = cash a + proceeds price sig pos,
                positions = fmupd stock pos2 (positions a)\<rparr>)"

text \<open>Lines 42 to 96: the body of the instrument loop.\<close>

definition trade_stock :: "ndarray \<Rightarrow> ndarray \<Rightarrow> nat \<Rightarrow> nat \<Rightarrow> Account \<Rightarrow> Account" where
  "trade_stock p s t stock a =
     (let price = cell p t stock in
      if dle price (Fin 0) \<or> \<not> isfinite price then a
      else
        let sig = cell s t stock in
        if dless (Fin 0) sig then buy (to_real price) sig (int stock) a
        else if dless sig (Fin 0) then sell (to_real price) sig (int stock) a
        else a)"

text \<open>Line 40: the instrument loop, over the column indices still to visit.\<close>

fun stock_loop :: "ndarray \<Rightarrow> ndarray \<Rightarrow> nat \<Rightarrow> nat list \<Rightarrow> Account \<Rightarrow> Account" where
  "stock_loop p s t [] a = a"
| "stock_loop p s t (stock # stocks) a = stock_loop p s t stocks (trade_stock p s t stock a)"

text \<open>
  Lines 99 to 108: the valuation. \<open>p(t, stock)\<close> is an unchecked read: a key outside
  \<open>[0, n_stocks)\<close> reads outside the row, which is undefined behaviour in C++ and the
  result \<open>OutOfBoundsRead\<close> here. The loop runs over the entries of the map; the model
  visits them in ascending key order (lemma \<open>equity_loop_any_order\<close>: every other
  order gives the same result).
\<close>

definition contribution :: "ndarray \<Rightarrow> nat \<Rightarrow> int \<Rightarrow> Position \<Rightarrow> real" where
  "contribution p t stock pos =
     (let px = cell p t (nat stock) in
      if dless (Fin 0) px \<and> isfinite px then total_shares pos * to_real px else 0)"

fun equity_loop ::
  "ndarray \<Rightarrow> nat \<Rightarrow> nat \<Rightarrow> (int \<times> Position) list \<Rightarrow> real \<Rightarrow> error + real" where
  "equity_loop p n_stocks t [] equity_today = Inr equity_today"
| "equity_loop p n_stocks t ((stock, pos) # kvs) equity_today =
     (if 0 \<le> stock \<and> stock < int n_stocks
      then equity_loop p n_stocks t kvs (equity_today + contribution p t stock pos)
      else Inl OutOfBoundsRead)"

definition valuation :: "ndarray \<Rightarrow> nat \<Rightarrow> nat \<Rightarrow> Account \<Rightarrow> error + real" where
  "valuation p n_stocks t a =
     equity_loop p n_stocks t (sorted_list_of_fmap (positions a)) (cash a)"

text \<open>
  Line 32: the day loop, over the days still to simulate. The result is the equity series
  or the error, together with the Account as the call leaves it.
\<close>

fun day_loop ::
  "ndarray \<Rightarrow> ndarray \<Rightarrow> nat \<Rightarrow> nat list \<Rightarrow> Account \<Rightarrow> real list \<Rightarrow>
   (error + real list) \<times> Account" where
  "day_loop p s n_stocks [] a equity = (Inr equity, a)"
| "day_loop p s n_stocks (t # ts) a equity =
     (let a1 = unlock a;
          a2 = stock_loop p s t [0..<n_stocks] a1
      in case valuation p n_stocks t a2 of
           Inl e \<Rightarrow> (Inl e, a2)
         | Inr equity_today \<Rightarrow> day_loop p s n_stocks ts a2 (equity @ [equity_today]))"

definition run :: "Account \<Rightarrow> ndarray \<Rightarrow> ndarray \<Rightarrow> (error + real list) \<times> Account" where
  "run a prices signals =
     (if ndim prices \<noteq> 2 \<or> ndim signals \<noteq> 2
      then (Inl (RuntimeError ''prices and signals must be 2D arrays''), a)
      else if shape prices ! 0 \<noteq> shape signals ! 0 \<or> shape prices ! 1 \<noteq> shape signals ! 1
      then (Inl (RuntimeError ''prices and signals shapes must match''), a)
      else
        let n_days = shape prices ! 0;
            n_stocks = shape prices ! 1
        in day_loop prices signals n_stocks [0..<n_days] a [])"

subsection \<open>Notions used in the statements\<close>

text \<open>A key of the positions map that is a column index of a matrix with \<open>n_stocks\<close> columns.\<close>

definition in_bounds :: "nat \<Rightarrow> int \<Rightarrow> bool" where
  "in_bounds n_stocks k \<longleftrightarrow> 0 \<le> k \<and> k < int n_stocks"

text \<open>The value that the valuation loop accumulates when every read is in bounds.\<close>

definition equity_of :: "ndarray \<Rightarrow> nat \<Rightarrow> Account \<Rightarrow> real" where
  "equity_of p t a =
     cash a + (\<Sum>k \<in> fmdom' (positions a). contribution p t k (the (fmlookup (positions a) k)))"




text \<open>The invariant of a Position (specification, sections 3 and 8).\<close>

definition pos_inv :: "Position \<Rightarrow> bool" where
  "pos_inv pos \<longleftrightarrow>
     0 \<le> sellable_shares pos \<and> sellable_shares pos \<le> total_shares pos \<and>
     (total_shares pos = 0 \<longrightarrow> sellable_shares pos = 0 \<and> avg_cost pos = 0)"


subsection \<open>Concrete inputs\<close>


definition signals_full :: ndarray where
  "signals_full = \<lparr>shape = [1, 1], cell = (\<lambda>t k. Fin 1)\<rparr>"

text \<open>A one-dimensional array of three elements (the accessor is never used).\<close>

definition flat_array :: ndarray where
  "flat_array = \<lparr>shape = [3], cell = (\<lambda>t k. Fin 10)\<rparr>"

text \<open>The Account of scenario 2 after its buy: 500 shares of instrument 0, bought today.\<close>

definition account_holding :: Account where
  "account_holding =
     \<lparr>cash = 4997,
      positions = fmupd 0 \<lparr>total_shares = 500, sellable_shares = 0, avg_cost = 10\<rparr> fmempty\<rparr>"




text \<open>Scenario 4: a day on which the price of the only instrument is NaN.\<close>

definition prices_nan :: ndarray where
  "prices_nan = \<lparr>shape = [1, 1], cell = (\<lambda>t k. NaN)\<rparr>"








section \<open>Properties of the operations\<close>

subsection \<open>Guards make the cells finite\<close>


lemma buy_fraction_finite:
  "dless (Fin 0) sig \<Longrightarrow> \<exists>f. std_min sig (Fin 1) = Fin f \<and> 0 < f \<and> f \<le> 1"
  by (cases sig) (auto simp: std_min_def)

lemma sell_fraction_finite:
  "dless sig (Fin 0) \<Longrightarrow> \<exists>g. std_min (duminus sig) (Fin 1) = Fin g \<and> 0 < g \<and> g \<le> 1"
  by (cases sig) (auto simp: std_min_def)


subsection \<open>The valuation is cash plus the sum of the contributions\<close>

lemma equity_loop_sum:
  "equity_loop p n t kvs e =
     (if \<forall>kv \<in> set kvs. in_bounds n (fst kv)
      then Inr (e + sum_list (map (\<lambda>kv. contribution p t (fst kv) (snd kv)) kvs))
      else Inl OutOfBoundsRead)"
  by (induction kvs arbitrary: e) (force simp: in_bounds_def)+

lemma equity_loop_any_order:
  assumes "distinct kvs" "distinct kvs'" "set kvs' = set kvs"
  shows "equity_loop p n t kvs' e = equity_loop p n t kvs e"
  using assms by (simp add: equity_loop_sum sum_list_distinct_conv_sum_set)

lemma set_sorted_list_of_fmap_fst:
  "fst ` set (sorted_list_of_fmap m) = fmdom' m"
  by (auto simp: sorted_list_of_fmap_def fmdom'_alt_def image_image)

lemma valuation_sum:
  "valuation p n t a =
     (if \<forall>k \<in> fmdom' (positions a). in_bounds n k then Inr (equity_of p t a)
      else Inl OutOfBoundsRead)"
proof -
  let ?ks = "sorted_list_of_fset (fmdom (positions a))"
  have d: "distinct ?ks" by (simp add: sorted_list_of_fset.rep_eq)
  have s: "set ?ks = fmdom' (positions a)" by (simp add: fmdom'_alt_def)
  have "sum_list (map (\<lambda>kv. contribution p t (fst kv) (snd kv)) (sorted_list_of_fmap (positions a)))
        = sum_list (map (\<lambda>k. contribution p t k (the (fmlookup (positions a) k))) ?ks)"
    by (simp add: sorted_list_of_fmap_def comp_def)
  also have "\<dots> = (\<Sum>k \<in> fmdom' (positions a). contribution p t k (the (fmlookup (positions a) k)))"
    using d s by (metis sum_list_distinct_conv_sum_set)
  finally have e: "sum_list (map (\<lambda>kv. contribution p t (fst kv) (snd kv)) (sorted_list_of_fmap (positions a)))
     = (\<Sum>k \<in> fmdom' (positions a). contribution p t k (the (fmlookup (positions a) k)))" .
  have b: "(\<forall>kv \<in> set (sorted_list_of_fmap (positions a)). in_bounds n (fst kv))
           \<longleftrightarrow> (\<forall>k \<in> fmdom' (positions a). in_bounds n k)"
    using set_sorted_list_of_fmap_fst [of "positions a"] by (metis (no_types, lifting) imageE imageI)
  show ?thesis
    unfolding valuation_def equity_loop_sum equity_of_def e b by simp
qed


lemma invalid_price_contribution:
  "dle (cell p t stock) (Fin 0) \<or> \<not> isfinite (cell p t stock) \<Longrightarrow>
   contribution p t (int stock) pos = 0"
  by (cases "cell p t stock") (auto simp: contribution_def)

lemma equity_of_drop:
  assumes "\<And>pos. contribution p t k pos = 0"
  shows "equity_of p t (a\<lparr>positions := fmdrop k (positions a)\<rparr>) = equity_of p t a"
proof -
  let ?f = "\<lambda>j. contribution p t j (the (fmlookup (positions a) j))"
  have "(\<Sum>j \<in> fmdom' (positions a) - {k}. contribution p t j (the (fmlookup (fmdrop k (positions a)) j)))
        = (\<Sum>j \<in> fmdom' (positions a) - {k}. ?f j)"
    by (rule sum.cong) auto
  also have "\<dots> = (\<Sum>j \<in> fmdom' (positions a). ?f j)"
    by (rule sum.mono_neutral_left) (auto simp: assms)
  finally show ?thesis by (simp add: equity_of_def)
qed

lemma valuation_drop:
  assumes "\<And>pos. contribution p t k pos = 0" "in_bounds n k"
  shows "valuation p n t (a\<lparr>positions := fmdrop k (positions a)\<rparr>) = valuation p n t a"
proof -
  have "(\<forall>j \<in> fmdom' (positions a) - {k}. in_bounds n j) \<longleftrightarrow> (\<forall>j \<in> fmdom' (positions a). in_bounds n j)"
    using assms(2) by auto
  then show ?thesis
    using equity_of_drop [OF assms(1), of a] by (simp add: valuation_sum)
qed

subsection \<open>What each operation touches\<close>

lemma unlock_cash [simp]: "cash (unlock a) = cash a"
  by (simp add: unlock_def)


lemma unlock_dom [simp]: "fmdom' (positions (unlock a)) = fmdom' (positions a)"
  by (simp add: unlock_def fmdom'_alt_def)


lemma buy_other [simp]:
  "k \<noteq> stock \<Longrightarrow> fmlookup (positions (buy price sig stock a)) k = fmlookup (positions a) k"
  by (simp add: buy_def Let_def)

lemma sell_other [simp]:
  "k \<noteq> stock \<Longrightarrow> fmlookup (positions (sell price sig stock a)) k = fmlookup (positions a) k"
  by (simp add: sell_def Let_def split: option.splits)

lemma trade_stock_other:
  "k \<noteq> int stock \<Longrightarrow>
   fmlookup (positions (trade_stock p s t stock a)) k = fmlookup (positions a) k"
  by (simp add: trade_stock_def Let_def)

lemma stock_loop_other:
  "k \<notin> int ` set stocks \<Longrightarrow>
   fmlookup (positions (stock_loop p s t stocks a)) k = fmlookup (positions a) k"
  by (induction stocks arbitrary: a) (auto simp: trade_stock_other)


lemma sell_dom [simp]:
  "fmdom' (positions (sell price sig stock a)) = fmdom' (positions a)"
  by (auto simp: sell_def Let_def fmlookup_dom'_iff split: option.splits)



lemma invalid_price_skip:
  "dle (cell p t stock) (Fin 0) \<or> \<not> isfinite (cell p t stock) \<Longrightarrow> trade_stock p s t stock a = a"
  by (simp add: trade_stock_def)

lemma stock_loop_skipped:
  assumes "dle (cell p t stock) (Fin 0) \<or> \<not> isfinite (cell p t stock)"
  shows "fmlookup (positions (stock_loop p s t stocks a)) (int stock) = fmlookup (positions a) (int stock)"
proof (induction stocks arbitrary: a)
  case Nil
  show ?case by simp
next
  case (Cons x xs)
  show ?case
  proof (cases "x = stock")
    case True
    with assms Cons show ?thesis by (simp add: invalid_price_skip)
  next
    case False
    then have "int stock \<noteq> int x" by simp
    with Cons [of "trade_stock p s t x a"] show ?thesis
      by (simp add: trade_stock_other)
  qed
qed







subsection \<open>The buy and the sell branch\<close>














subsection \<open>The Position invariant and the sign of cash\<close>

lemma pos_inv_Position0 [simp]: "pos_inv Position0"
  by (simp add: pos_inv_def Position0_def)

















subsection \<open>The day loop\<close>

lemma shape_differs:
  assumes "length xs = 2" "length ys = 2" "xs \<noteq> (ys :: nat list)"
  shows "xs ! 0 \<noteq> ys ! 0 \<or> xs ! 1 \<noteq> ys ! 1"
proof (rule ccontr)
  assume "\<not> ?thesis"
  then have "\<forall>i < 2. xs ! i = ys ! i" by (auto simp: less_2_cases_iff)
  with assms(1,2) have "xs = ys" by (simp add: list_eq_iff_nth_eq)
  with assms(3) show False by simp
qed










subsection \<open>The scenarios, evaluated\<close>






section \<open>The claims\<close>

subsection \<open>C1: the equity series\<close>




subsection \<open>C2: the shape check\<close>

text \<open>
  C2. Whenever one of the two arrays is not two-dimensional or the two shapes differ,
  \<open>run\<close> fails with the runtime error of the shape check (the specification's
  ShapeMismatch; the code throws \<open>std::runtime_error\<close> with one of two messages), the
  result carries no equity series, and the Account is exactly the one before the call.
\<close>

theorem run_shape_mismatch:
  assumes "ndim prices \<noteq> 2 \<or> ndim signals \<noteq> 2 \<or> shape prices \<noteq> shape signals"
  shows "fst (run a prices signals) \<in>
           {Inl (RuntimeError ''prices and signals must be 2D arrays''),
            Inl (RuntimeError ''prices and signals shapes must match'')}
         \<and> snd (run a prices signals) = a"
proof (cases "ndim prices \<noteq> 2 \<or> ndim signals \<noteq> 2")
  case True
  then show ?thesis by (simp add: run_def)
next
  case False
  with assms have "shape prices ! 0 \<noteq> shape signals ! 0 \<or> shape prices ! 1 \<noteq> shape signals ! 1"
    using shape_differs [of "shape prices" "shape signals"] by (simp add: ndim_def)
  with False show ?thesis by (simp add: run_def)
qed

theorem run_shape_mismatch_witness:
  "ndim flat_array \<noteq> 2 \<and>
   snd (run (ChronoEngine 1000) flat_array signals_full) = ChronoEngine 1000 \<and>
   (\<exists>e. fst (run (ChronoEngine 1000) flat_array signals_full) = Inl e)"
proof -
  have h: "ndim flat_array \<noteq> 2" by (simp add: ndim_def flat_array_def)
  then have "ndim flat_array \<noteq> 2 \<or> ndim signals_full \<noteq> 2 \<or> shape flat_array \<noteq> shape signals_full"
    by simp
  from run_shape_mismatch [OF this, of "ChronoEngine 1000"] h show ?thesis by auto
qed

subsection \<open>C3: the Position invariant\<close>



subsection \<open>C4: a buy never drives cash below zero\<close>



subsection \<open>C5: a buy is not sellable on its day\<close>



subsection \<open>C6: priority by instrument index\<close>




subsection \<open>C7: an invalid price skips the instrument for the day\<close>

text \<open>
  C7. On a day on which the price of an instrument is NaN, infinite or \<open>\<le> 0\<close>, the
  iteration of the instrument loop for it leaves the whole Account unchanged whatever the
  signal (no buy, no sell); its Position is the same after the instrument pass as before
  it; and the Position contributes 0 to the equity of the day: the valuation is the one
  of the Account without that Position.
\<close>

theorem invalid_price_skips_instrument:
  assumes "dle (cell p t stock) (Fin 0) \<or> \<not> isfinite (cell p t stock)"
  shows "trade_stock p s t stock a = a \<and>
         fmlookup (positions (stock_loop p s t stocks a)) (int stock)
           = fmlookup (positions a) (int stock) \<and>
         contribution p t (int stock) pos = 0 \<and>
         equity_of p t (a\<lparr>positions := fmdrop (int stock) (positions a)\<rparr>) = equity_of p t a \<and>
         (stock < n \<longrightarrow>
            valuation p n t (a\<lparr>positions := fmdrop (int stock) (positions a)\<rparr>) = valuation p n t a)"
  using assms
  by (simp add: invalid_price_skip stock_loop_skipped invalid_price_contribution
      equity_of_drop valuation_drop in_bounds_def)

theorem invalid_price_skips_instrument_witness:
  "\<not> isfinite (cell prices_nan 0 0) \<and>
   trade_stock prices_nan signals_full 0 0 account_holding = account_holding \<and>
   fmlookup (positions (stock_loop prices_nan signals_full 0 [0..<1] account_holding)) 0
     = Some \<lparr>total_shares = 500, sellable_shares = 0, avg_cost = 10\<rparr> \<and>
   valuation prices_nan 1 0 account_holding = Inr 4997"
proof -
  have h: "\<not> isfinite (cell prices_nan 0 0)" by (simp add: prices_nan_def)
  then have h': "dle (cell prices_nan 0 0) (Fin 0) \<or> \<not> isfinite (cell prices_nan 0 0)" by simp
  have d: "valuation prices_nan 1 0
             (account_holding\<lparr>positions := fmdrop (int 0) (positions account_holding)\<rparr>) = Inr 4997"
    by (simp add: valuation_sum equity_of_def account_holding_def)
  have l: "fmlookup (positions account_holding) 0
             = Some \<lparr>total_shares = 500, sellable_shares = 0, avg_cost = 10\<rparr>"
    by (simp add: account_holding_def)
  from invalid_price_skips_instrument [OF h', of signals_full account_holding "[0..<1]" _ 1] h d l
  show ?thesis by simp
qed

subsection \<open>C8: selling the whole Position\<close>



subsection \<open>C9: a full-cash buy is rejected\<close>



subsection \<open>C10: the valuation reads at the stored keys\<close>



end
